theory Spec2Isabelle
  imports Complex_Main
begin

section \<open>The sphere tessellator of create_sphere_fbx.py and generate_sphere.py\<close>

text \<open>
  Both scripts define the same function \<^verbatim>\<open>generate_sphere\<close> (lines 4 to 37 of each
  file; they differ only in the default values of the parameters).

  Modelling conventions.
  \<^item> Python's unbounded \<^verbatim>\<open>int\<close> is \<^typ>\<open>int\<close>.
  \<^item> Python's \<^verbatim>\<open>float\<close> is \<^typ>\<open>real\<close>: arithmetic, \<^verbatim>\<open>math.sin\<close>, \<^verbatim>\<open>math.cos\<close>,
    \<^verbatim>\<open>math.sqrt\<close> and \<^verbatim>\<open>math.pi\<close> are the exact real operations. Rounding, overflow,
    infinities and NaN of IEEE doubles are outside this model.
  \<^item> An exception is a value of \<open>py_error\<close>; a function that can raise returns
    \<open>py_error + 'a\<close>, with \<open>Inl\<close> for the exception.
  \<^item> A \<^verbatim>\<open>for\<close> loop over a \<^verbatim>\<open>range\<close> is a recursion over the list of the values the range
    yields; the list that the loop extends is passed along and returned.
\<close>

datatype py_error = ZeroDivisionError | IndexError

text \<open>\<^verbatim>\<open>range(n)\<close>: the integers \<open>0, ..., n - 1\<close>; empty when \<open>n \<le> 0\<close>.\<close>

definition range_py :: "int \<Rightarrow> int list" where
  "range_py n = [0..n - 1]"

text \<open>
  \<^verbatim>\<open>a / b\<close> for a float \<open>a\<close> and an int \<open>b\<close>: Python raises ZeroDivisionError when
  \<open>b\<close> is zero.
\<close>

definition float_div_int :: "real \<Rightarrow> int \<Rightarrow> py_error + real" where
  "float_div_int a b = (if b = 0 then Inl ZeroDivisionError else Inr (a / of_int b))"

text \<open>
  The inner vertex loop (lines 15 to 24):
  \<^verbatim>\<open>
  for lon in range(longitude_segments + 1):
      phi = lon * 2 * math.pi / longitude_segments
      sin_phi = math.sin(phi)
      cos_phi = math.cos(phi)
      x = radius * cos_phi * sin_theta
      y = radius * cos_theta
      z = radius * sin_phi * sin_theta
      vertices.extend([x, y, z])
  \<close>
\<close>

fun vertex_lon_loop ::
  "real \<Rightarrow> int \<Rightarrow> real \<Rightarrow> real \<Rightarrow> int list \<Rightarrow> real list \<Rightarrow> py_error + real list" where
  "vertex_lon_loop radius longitude_segments sin_theta cos_theta [] vertices = Inr vertices"
| "vertex_lon_loop radius longitude_segments sin_theta cos_theta (lon # lons) vertices =
     (case float_div_int (of_int (lon * 2) * pi) longitude_segments of
        Inl e \<Rightarrow> Inl e
      | Inr phi \<Rightarrow>
          (let sin_phi = sin phi;
               cos_phi = cos phi;
               x = radius * cos_phi * sin_theta;
               y = radius * cos_theta;
               z = radius * sin_phi * sin_theta
           in vertex_lon_loop radius longitude_segments sin_theta cos_theta lons
                (vertices @ [x, y, z])))"

text \<open>
  The outer vertex loop (lines 10 to 24):
  \<^verbatim>\<open>
  for lat in range(latitude_segments + 1):
      theta = lat * math.pi / latitude_segments
      sin_theta = math.sin(theta)
      cos_theta = math.cos(theta)
      for lon in range(longitude_segments + 1): ...
  \<close>
\<close>

fun vertex_lat_loop ::
  "real \<Rightarrow> int \<Rightarrow> int \<Rightarrow> int list \<Rightarrow> real list \<Rightarrow> py_error + real list" where
  "vertex_lat_loop radius latitude_segments longitude_segments [] vertices = Inr vertices"
| "vertex_lat_loop radius latitude_segments longitude_segments (lat # lats) vertices =
     (case float_div_int (of_int lat * pi) latitude_segments of
        Inl e \<Rightarrow> Inl e
      | Inr theta \<Rightarrow>
          (let sin_theta = sin theta;
               cos_theta = cos theta
           in case vertex_lon_loop radius longitude_segments sin_theta cos_theta
                     (range_py (longitude_segments + 1)) vertices of
                Inl e \<Rightarrow> Inl e
              | Inr vertices' \<Rightarrow>
                  vertex_lat_loop radius latitude_segments longitude_segments lats vertices'))"

text \<open>
  The index loops (lines 27 to 35):
  \<^verbatim>\<open>
  for lat in range(latitude_segments):
      for lon in range(longitude_segments):
          first = lat * (longitude_segments + 1) + lon
          second = first + longitude_segments + 1
          indices.extend([first, second, first + 1])
          indices.extend([second, second + 1, first + 1])
  \<close>
\<close>

fun index_lon_loop :: "int \<Rightarrow> int \<Rightarrow> int list \<Rightarrow> int list \<Rightarrow> int list" where
  "index_lon_loop longitude_segments lat [] indices = indices"
| "index_lon_loop longitude_segments lat (lon # lons) indices =
     (let first = lat * (longitude_segments + 1) + lon;
          second = first + longitude_segments + 1
      in index_lon_loop longitude_segments lat lons
           ((indices @ [first, second, first + 1]) @ [second, second + 1, first + 1]))"

fun index_lat_loop :: "int \<Rightarrow> int list \<Rightarrow> int list \<Rightarrow> int list" where
  "index_lat_loop longitude_segments [] indices = indices"
| "index_lat_loop longitude_segments (lat # lats) indices =
     index_lat_loop longitude_segments lats
       (index_lon_loop longitude_segments lat (range_py longitude_segments) indices)"

text \<open>
  \<^verbatim>\<open>generate_sphere(radius, latitude_segments, longitude_segments)\<close> returns the pair
  \<^verbatim>\<open>(vertices, indices)\<close>, or raises in the vertex loops.
\<close>

definition generate_sphere :: "real \<Rightarrow> int \<Rightarrow> int \<Rightarrow> py_error + (real list \<times> int list)" where
  "generate_sphere radius latitude_segments longitude_segments =
     (case vertex_lat_loop radius latitude_segments longitude_segments
             (range_py (latitude_segments + 1)) [] of
        Inl e \<Rightarrow> Inl e
      | Inr vertices \<Rightarrow>
          Inr (vertices,
               index_lat_loop longitude_segments (range_py latitude_segments) []))"

section \<open>The geometry block of create_sphere_fbx.py\<close>

text \<open>
  The script create_sphere_fbx.py calls \<^verbatim>\<open>generate_sphere\<close> (line 40) and writes the
  FBX text with one \<^verbatim>\<open>f.write\<close> per line. Lines 50 to 178 write fixed text that does
  not depend on the mesh; the model starts at the geometry block (lines 181 to 207),
  which holds the three count-prefixed arrays. The file is the list of the strings
  written, in order.
\<close>

subsection \<open>Number formatting\<close>

text \<open>\<^verbatim>\<open>str(n)\<close> for an int: plain decimal digits, with a minus sign when negative.\<close>

definition digit_char :: "nat \<Rightarrow> char" where
  "digit_char d = ''0123456789'' ! d"

fun str_nat :: "nat \<Rightarrow> string" where
  "str_nat n = (if n < 10 then [digit_char n] else str_nat (n div 10) @ [digit_char (n mod 10)])"

declare str_nat.simps [simp del]

definition str_int :: "int \<Rightarrow> string" where
  "str_int i = (if i < 0 then ''-'' @ str_nat (nat (- i)) else str_nat (nat i))"

text \<open>
  The format \<^verbatim>\<open>{x:.6f}\<close>: the value rounded to six decimals (ties to even), written as
  an optional minus sign, the integer digits, a point and six digits. The sign is that
  of \<open>x\<close>, also when the digits are all zero.
\<close>

definition round_half_even :: "real \<Rightarrow> int" where
  "round_half_even y =
     (let f = \<lfloor>y\<rfloor>; d = y - of_int f
      in if d < 1 / 2 then f else if 1 / 2 < d then f + 1 else if even f then f else f + 1)"

definition format_6f :: "real \<Rightarrow> string" where
  "format_6f x =
     (let n = nat (round_half_even (\<bar>x\<bar> * 1000000))
      in (if x < 0 then ''-'' else '''') @ str_nat (n div 1000000) @ ''.'' @
         map (\<lambda>p. digit_char (n div 10 ^ p mod 10)) [5, 4, 3, 2, 1, 0])"

subsection \<open>The writer\<close>

definition newline :: string where
  "newline = [CHR 0x0A]"

definition dquote :: string where
  "dquote = [CHR 0x22]"

text \<open>\<^verbatim>\<open>range(0, n, 3)\<close>.\<close>

definition range_step3 :: "nat \<Rightarrow> nat list" where
  "range_step3 n = map (\<lambda>k. 3 * k) [0..<(n + 2) div 3]"

text \<open>
  \<^verbatim>\<open>xs[i], xs[i+1], xs[i+2]\<close> for \<open>i \<ge> 0\<close>: IndexError when one of the three is out
  of range.
\<close>

definition triple_at :: "'a list \<Rightarrow> nat \<Rightarrow> py_error + ('a \<times> 'a \<times> 'a)" where
  "triple_at xs i =
     (if i + 2 < length xs then Inr (xs ! i, xs ! (i + 1), xs ! (i + 2)) else Inl IndexError)"

text \<open>\<^verbatim>\<open>a / b\<close> for two floats.\<close>

definition float_div :: "real \<Rightarrow> real \<Rightarrow> py_error + real" where
  "float_div a b = (if b = 0 then Inl ZeroDivisionError else Inr (a / b))"

text \<open>
  The lines written by lines 187, 191 and 204:
  \<^verbatim>\<open>f"        a: {vertices[i]:.6f}, {vertices[i+1]:.6f}, {vertices[i+2]:.6f},\n"\<close>,
  \<^verbatim>\<open>f"        a: {indices[i]}, {indices[i+1]}, {indices[i+2]},\n"\<close> and
  \<^verbatim>\<open>f"            a: {x:.6f}, {y:.6f}, {z:.6f},\n"\<close>.
\<close>

definition vertex_line :: "real \<Rightarrow> real \<Rightarrow> real \<Rightarrow> string" where
  "vertex_line x y z =
     ''        a: '' @ format_6f x @ '', '' @ format_6f y @ '', '' @ format_6f z @ '','' @ newline"

definition index_line :: "int \<Rightarrow> int \<Rightarrow> int \<Rightarrow> string" where
  "index_line a b c =
     ''        a: '' @ str_int a @ '', '' @ str_int b @ '', '' @ str_int c @ '','' @ newline"

definition normal_line :: "real \<Rightarrow> real \<Rightarrow> real \<Rightarrow> string" where
  "normal_line x y z =
     ''            a: '' @ format_6f x @ '', '' @ format_6f y @ '', '' @ format_6f z @ '','' @ newline"

text \<open>
  Lines 200 to 203:
  \<^verbatim>\<open>
  x, y, z = vertices[i], vertices[i+1], vertices[i+2]
  length = math.sqrt(x*x + y*y + z*z)
  if length > 0:
      x, y, z = x/length, y/length, z/length
  \<close>
\<close>

definition normal_of :: "real \<Rightarrow> real \<Rightarrow> real \<Rightarrow> py_error + (real \<times> real \<times> real)" where
  "normal_of x y z =
     (let length = sqrt (x * x + y * y + z * z)
      in if length > 0 then
           (case float_div x length of
              Inl e \<Rightarrow> Inl e
            | Inr x' \<Rightarrow>
                (case float_div y length of
                   Inl e \<Rightarrow> Inl e
                 | Inr y' \<Rightarrow>
                     (case float_div z length of
                        Inl e \<Rightarrow> Inl e
                      | Inr z' \<Rightarrow> Inr (x', y', z'))))
         else Inr (x, y, z))"

text \<open>The three loops \<^verbatim>\<open>for i in range(0, len(...), 3)\<close> of lines 186, 190 and 198.\<close>

fun vertex_lines_loop :: "real list \<Rightarrow> nat list \<Rightarrow> string list \<Rightarrow> py_error + string list" where
  "vertex_lines_loop vertices [] file = Inr file"
| "vertex_lines_loop vertices (i # rest) file =
     (case triple_at vertices i of
        Inl e \<Rightarrow> Inl e
      | Inr (x, y, z) \<Rightarrow> vertex_lines_loop vertices rest (file @ [vertex_line x y z]))"

fun index_lines_loop :: "int list \<Rightarrow> nat list \<Rightarrow> string list \<Rightarrow> py_error + string list" where
  "index_lines_loop indices [] file = Inr file"
| "index_lines_loop indices (i # rest) file =
     (case triple_at indices i of
        Inl e \<Rightarrow> Inl e
      | Inr (a, b, c) \<Rightarrow> index_lines_loop indices rest (file @ [index_line a b c]))"

fun normal_lines_loop :: "real list \<Rightarrow> nat list \<Rightarrow> string list \<Rightarrow> py_error + string list" where
  "normal_lines_loop vertices [] file = Inr file"
| "normal_lines_loop vertices (i # rest) file =
     (case triple_at vertices i of
        Inl e \<Rightarrow> Inl e
      | Inr (x, y, z) \<Rightarrow>
          (case normal_of x y z of
             Inl e \<Rightarrow> Inl e
           | Inr (x', y', z') \<Rightarrow>
               normal_lines_loop vertices rest (file @ [normal_line x' y' z'])))"

text \<open>Lines 41 to 43 and 181 to 207.\<close>

definition write_geometry :: "real list \<Rightarrow> int list \<Rightarrow> py_error + string list" where
  "write_geometry vertices indices =
     (let vertex_count = int (length vertices) div 3;
          index_count = int (length indices);
          file =
            [''Geometry: '' @ dquote @ ''Geometry::UnitSphere'' @ dquote @ '' {'' @ newline,
             ''    Properties70:  {'' @ newline,
             ''        P: '' @ dquote @ ''Color'' @ dquote @ '', '' @ dquote @ ''ColorRGB'' @ dquote @
               '', '' @ dquote @ ''Color'' @ dquote @ '', '' @ dquote @ dquote @ '',0.8,0.8,0.8'' @ newline,
             ''    }'' @ newline,
             ''    Vertices: *'' @ str_int vertex_count @ '' {'' @ newline]
      in case vertex_lines_loop vertices (range_step3 (length vertices)) file of
           Inl e \<Rightarrow> Inl e
         | Inr file \<Rightarrow>
             (case index_lines_loop indices (range_step3 (length indices))
                     (file @
                      [''    }'' @ newline,
                       ''    PolygonVertexIndex: *'' @ str_int index_count @ '' {'' @ newline]) of
                Inl e \<Rightarrow> Inl e
              | Inr file \<Rightarrow>
                  (case normal_lines_loop vertices (range_step3 (length vertices))
                          (file @
                           [''    }'' @ newline,
                            ''    Edges: *0 {'' @ newline,
                            ''    }'' @ newline,
                            ''    GeometryVersion: 124'' @ newline,
                            ''    LayerElementNormal: 0 {'' @ newline,
                            ''        Normals: *'' @ str_int vertex_count @ '' {'' @ newline]) of
                     Inl e \<Rightarrow> Inl e
                   | Inr file \<Rightarrow>
                       Inr (file @
                            [''        }'' @ newline,
                             ''    }'' @ newline,
                             ''}'' @ newline]))))"

text \<open>
  The script, with the three arguments of its call of \<^verbatim>\<open>generate_sphere\<close> as
  parameters; the script itself is \<open>create_sphere_fbx 1 16 32\<close>.
\<close>

definition create_sphere_fbx :: "real \<Rightarrow> int \<Rightarrow> int \<Rightarrow> py_error + string list" where
  "create_sphere_fbx radius latitude_segments longitude_segments =
     (case generate_sphere radius latitude_segments longitude_segments of
        Inl e \<Rightarrow> Inl e
      | Inr (vertices, indices) \<Rightarrow> write_geometry vertices indices)"

section \<open>The arrays printed by generate_sphere.py\<close>






section \<open>Reading the written text\<close>

text \<open>
  What a reader of the document sees of a count-prefixed array: the header line
  \<^verbatim>\<open>Name: *count {\<close>, whose declared count is the number after the star, and the data
  lines \<^verbatim>\<open>a: ...\<close> that follow it up to the closing brace.
\<close>

definition strip_indent :: "string \<Rightarrow> string" where
  "strip_indent line = dropWhile (\<lambda>c. c = CHR '' '') line"

definition is_data_line :: "string \<Rightarrow> bool" where
  "is_data_line line = (take 3 (strip_indent line) = ''a: '')"

definition is_array_header :: "string \<Rightarrow> string \<Rightarrow> bool" where
  "is_array_header name line = (take (length name + 3) (strip_indent line) = name @ '': *'')"

definition is_digit :: "char \<Rightarrow> bool" where
  "is_digit c = (c \<in> set ''0123456789'')"

definition digit_value :: "char \<Rightarrow> nat" where
  "digit_value c = of_char c - 48"

definition nat_of_digits :: "string \<Rightarrow> nat" where
  "nat_of_digits ds = foldl (\<lambda>a c. 10 * a + digit_value c) 0 ds"

definition declared_count :: "string \<Rightarrow> nat" where
  "declared_count line =
     nat_of_digits (takeWhile is_digit (drop 1 (dropWhile (\<lambda>c. c \<noteq> CHR ''*'') line)))"

definition section_from :: "string \<Rightarrow> string list \<Rightarrow> string list" where
  "section_from name doc = dropWhile (\<lambda>line. \<not> is_array_header name line) doc"

definition array_declared_count :: "string \<Rightarrow> string list \<Rightarrow> nat option" where
  "array_declared_count name doc =
     (case section_from name doc of [] \<Rightarrow> None | header # rest \<Rightarrow> Some (declared_count header))"

definition array_data_lines :: "string \<Rightarrow> string list \<Rightarrow> string list" where
  "array_data_lines name doc = takeWhile is_data_line (drop 1 (section_from name doc))"

text \<open>
  The shapes the specification names: a plain decimal integer (an optional minus sign
  and digits only), and a number with exactly six digits after the decimal point.
\<close>

definition unsigned_part :: "string \<Rightarrow> string" where
  "unsigned_part s = (if take 1 s = ''-'' then drop 1 s else s)"

definition is_plain_decimal :: "string \<Rightarrow> bool" where
  "is_plain_decimal s = (unsigned_part s \<noteq> [] \<and> list_all is_digit (unsigned_part s))"

definition is_fixed6 :: "string \<Rightarrow> bool" where
  "is_fixed6 s =
     (let whole = takeWhile is_digit (unsigned_part s);
          rest = dropWhile is_digit (unsigned_part s)
      in whole \<noteq> [] \<and> take 1 rest = ''.'' \<and> length (drop 1 rest) = 6 \<and>
         list_all is_digit (drop 1 rest))"

section \<open>Closed forms of the loops\<close>

text \<open>
  What the loops compute, without the list that is passed along. The lemmas below
  prove that the loops return these values.
\<close>

text \<open>The three coordinates that one iteration of the inner vertex loop appends.\<close>

definition vertex_at :: "real \<Rightarrow> int \<Rightarrow> int \<Rightarrow> int \<Rightarrow> int \<Rightarrow> real list" where
  "vertex_at radius latitude_segments longitude_segments lat lon =
     (let theta = of_int lat * pi / of_int latitude_segments;
          phi = of_int (lon * 2) * pi / of_int longitude_segments
      in [radius * cos phi * sin theta, radius * cos theta, radius * sin phi * sin theta])"

text \<open>The six indices that one iteration of the inner index loop appends.\<close>

definition cell_indices :: "int \<Rightarrow> int \<Rightarrow> int \<Rightarrow> int list" where
  "cell_indices longitude_segments lat lon =
     (let first = lat * (longitude_segments + 1) + lon;
          second = first + longitude_segments + 1
      in [first, second, first + 1, second, second + 1, first + 1])"

text \<open>What \<open>generate_sphere\<close> returns when neither segment count is zero.\<close>

definition sphere_vertices :: "real \<Rightarrow> int \<Rightarrow> int \<Rightarrow> real list" where
  "sphere_vertices radius latitude_segments longitude_segments =
     concat (map (\<lambda>lat. concat (map
               (vertex_at radius latitude_segments longitude_segments lat)
               (range_py (longitude_segments + 1))))
            (range_py (latitude_segments + 1)))"

definition sphere_indices :: "int \<Rightarrow> int \<Rightarrow> int list" where
  "sphere_indices latitude_segments longitude_segments =
     concat (map (\<lambda>lat. concat (map (cell_indices longitude_segments lat)
                                   (range_py longitude_segments)))
            (range_py latitude_segments))"

text \<open>The coordinates that one iteration of the outer vertex loop appends.\<close>

definition vertex_row :: "real \<Rightarrow> int \<Rightarrow> int \<Rightarrow> int \<Rightarrow> real list" where
  "vertex_row radius latitude_segments longitude_segments lat =
     concat (map (vertex_at radius latitude_segments longitude_segments lat)
               (range_py (longitude_segments + 1)))"

text \<open>The normal that the Normals block computes; the guard keeps every division defined.\<close>

definition unit_normal :: "real \<Rightarrow> real \<Rightarrow> real \<Rightarrow> real \<times> real \<times> real" where
  "unit_normal x y z =
     (if sqrt (x * x + y * y + z * z) > 0
      then (x / sqrt (x * x + y * y + z * z), y / sqrt (x * x + y * y + z * z),
            z / sqrt (x * x + y * y + z * z))
      else (x, y, z))"

definition vertex_lines :: "real list \<Rightarrow> string list" where
  "vertex_lines vertices =
     map (\<lambda>i. vertex_line (vertices ! i) (vertices ! (i + 1)) (vertices ! (i + 2)))
       (range_step3 (length vertices))"

definition index_lines :: "int list \<Rightarrow> string list" where
  "index_lines indices =
     map (\<lambda>i. index_line (indices ! i) (indices ! (i + 1)) (indices ! (i + 2)))
       (range_step3 (length indices))"

definition normal_lines :: "real list \<Rightarrow> string list" where
  "normal_lines vertices =
     map (\<lambda>i. case unit_normal (vertices ! i) (vertices ! (i + 1)) (vertices ! (i + 2)) of
                (x, y, z) \<Rightarrow> normal_line x y z)
       (range_step3 (length vertices))"

definition vertices_open :: "nat \<Rightarrow> string list" where
  "vertices_open vertex_count =
     [''Geometry: '' @ dquote @ ''Geometry::UnitSphere'' @ dquote @ '' {'' @ newline,
      ''    Properties70:  {'' @ newline,
      ''        P: '' @ dquote @ ''Color'' @ dquote @ '', '' @ dquote @ ''ColorRGB'' @ dquote @
        '', '' @ dquote @ ''Color'' @ dquote @ '', '' @ dquote @ dquote @ '',0.8,0.8,0.8'' @ newline,
      ''    }'' @ newline,
      ''    Vertices: *'' @ str_int (int vertex_count) @ '' {'' @ newline]"

definition indices_open :: "nat \<Rightarrow> string list" where
  "indices_open index_count =
     [''    }'' @ newline,
      ''    PolygonVertexIndex: *'' @ str_int (int index_count) @ '' {'' @ newline]"

definition normals_open :: "nat \<Rightarrow> string list" where
  "normals_open vertex_count =
     [''    }'' @ newline,
      ''    Edges: *0 {'' @ newline,
      ''    }'' @ newline,
      ''    GeometryVersion: 124'' @ newline,
      ''    LayerElementNormal: 0 {'' @ newline,
      ''        Normals: *'' @ str_int (int vertex_count) @ '' {'' @ newline]"

definition geometry_close :: "string list" where
  "geometry_close = [''        }'' @ newline, ''    }'' @ newline, ''}'' @ newline]"

definition geometry_document :: "nat \<Rightarrow> nat \<Rightarrow> string list \<Rightarrow> string list \<Rightarrow> string list \<Rightarrow> string list" where
  "geometry_document vertex_count index_count vlines ilines nlines =
     vertices_open vertex_count @ vlines @ indices_open index_count @ ilines @
     normals_open vertex_count @ nlines @ geometry_close"






section \<open>The loops return their closed forms\<close>

lemma length_range_py: "length (range_py n) = nat n"
  by (simp add: range_py_def)

lemma set_range_py: "set (range_py n) = {0..<n}"
  by (auto simp: range_py_def)

lemma vertex_lon_loop_eq:
  assumes "longitude_segments \<noteq> 0"
  shows "vertex_lon_loop radius longitude_segments (sin (of_int lat * pi / of_int latitude_segments))
           (cos (of_int lat * pi / of_int latitude_segments)) lons vertices =
         Inr (vertices @ concat (map (vertex_at radius latitude_segments longitude_segments lat) lons))"
  using assms
  by (induction lons arbitrary: vertices) (simp_all add: float_div_int_def vertex_at_def Let_def)

lemma vertex_lat_loop_eq:
  assumes "latitude_segments \<noteq> 0" and "longitude_segments \<noteq> 0"
  shows "vertex_lat_loop radius latitude_segments longitude_segments lats vertices =
         Inr (vertices @ concat (map (\<lambda>lat. concat (map
                (vertex_at radius latitude_segments longitude_segments lat)
                (range_py (longitude_segments + 1)))) lats))"
  using assms
  by (induction lats arbitrary: vertices)
     (simp_all add: float_div_int_def Let_def vertex_lon_loop_eq)

lemma index_lon_loop_eq:
  "index_lon_loop longitude_segments lat lons indices =
   indices @ concat (map (cell_indices longitude_segments lat) lons)"
  by (induction lons arbitrary: indices) (simp_all add: cell_indices_def Let_def)

lemma index_lat_loop_eq:
  "index_lat_loop longitude_segments lats indices =
   indices @ concat (map (\<lambda>lat. concat (map (cell_indices longitude_segments lat)
                                     (range_py longitude_segments))) lats)"
  by (induction lats arbitrary: indices) (simp_all add: index_lon_loop_eq)

lemma length_concat_const:
  assumes "\<And>x. x \<in> set xs \<Longrightarrow> length (f x) = k"
  shows "length (concat (map f xs)) = length xs * k"
  using assms by (induction xs) simp_all

lemma length_vertex_at [simp]:
  "length (vertex_at radius latitude_segments longitude_segments lat lon) = 3"
  by (simp add: vertex_at_def Let_def)

lemma length_cell_indices [simp]: "length (cell_indices longitude_segments lat lon) = 6"
  by (simp add: cell_indices_def Let_def)

lemma generate_sphere_eq:
  assumes "latitude_segments \<noteq> 0" and "longitude_segments \<noteq> 0"
  shows "generate_sphere radius latitude_segments longitude_segments =
         Inr (sphere_vertices radius latitude_segments longitude_segments,
              sphere_indices latitude_segments longitude_segments)"
  using assms
  by (simp add: generate_sphere_def vertex_lat_loop_eq index_lat_loop_eq
      sphere_vertices_def sphere_indices_def)

lemma length_sphere_vertices:
  "length (sphere_vertices radius latitude_segments longitude_segments) =
   nat (latitude_segments + 1) * (nat (longitude_segments + 1) * 3)"
  unfolding sphere_vertices_def
  by (subst length_concat_const [where k = "nat (longitude_segments + 1) * 3"])
     (simp_all add: length_concat_const [where k = 3] length_range_py)

lemma length_sphere_indices:
  "length (sphere_indices latitude_segments longitude_segments) =
   nat latitude_segments * (nat longitude_segments * 6)"
  unfolding sphere_indices_def
  by (subst length_concat_const [where k = "nat longitude_segments * 6"])
     (simp_all add: length_concat_const [where k = 6] length_range_py)

section \<open>Vertex and index counts\<close>

text \<open>
  Claim C1. For segment counts \<open>L \<ge> 1\<close> and \<open>N \<ge> 1\<close> (and any radius, in particular
  every positive one) \<open>generate_sphere\<close> returns, and it returns a flat coordinate list
  of length \<open>3 * (L + 1) * (N + 1)\<close>, that is \<open>(L + 1) * (N + 1)\<close> vertices, and
  exactly \<open>L * N * 6\<close> indices.
\<close>

theorem generate_sphere_counts:
  assumes "1 \<le> L" and "1 \<le> N"
  shows "\<exists>vertices indices.
           generate_sphere radius L N = Inr (vertices, indices) \<and>
           int (length vertices) = 3 * ((L + 1) * (N + 1)) \<and>
           int (length vertices div 3) = (L + 1) * (N + 1) \<and>
           int (length indices) = L * N * 6"
proof -
  from assms have nz: "L \<noteq> 0" "N \<noteq> 0" by simp_all
  have lv: "length (sphere_vertices radius L N) = nat (L + 1) * (nat (N + 1) * 3)"
    by (rule length_sphere_vertices)
  have li: "length (sphere_indices L N) = nat L * (nat N * 6)"
    by (rule length_sphere_indices)
  from assms have v: "int (nat (L + 1) * (nat (N + 1) * 3)) = 3 * ((L + 1) * (N + 1))"
    by simp
  from assms have d: "nat (L + 1) * (nat (N + 1) * 3) div 3 = nat (L + 1) * nat (N + 1)"
    by simp
  from assms have i: "int (nat L * (nat N * 6)) = L * N * 6"
    by simp
  show ?thesis
    using generate_sphere_eq [OF nz, of radius] lv li v d i assms
    by (simp add: nat_mult_distrib)
qed

theorem generate_sphere_counts_witness:
  "\<exists>vertices indices.
     generate_sphere 1 16 32 = Inr (vertices, indices) \<and>
     int (length vertices) = 1683 \<and>
     int (length vertices div 3) = 561 \<and>
     int (length indices) = 3072"
  using generate_sphere_counts [of 16 32 1] by simp

section \<open>Index range\<close>

lemma set_cell_indices:
  "set (cell_indices N lat lon) =
   {lat * (N + 1) + lon, lat * (N + 1) + lon + N + 1, lat * (N + 1) + lon + 1,
    lat * (N + 1) + lon + N + 1 + 1}"
  by (auto simp: cell_indices_def Let_def)

lemma set_sphere_indices:
  "set (sphere_indices L N) =
   (\<Union>lat \<in> {0..<L}. \<Union>lon \<in> {0..<N}. set (cell_indices N lat lon))"
  by (simp add: sphere_indices_def set_range_py)

lemma cell_index_bounds:
  assumes "0 \<le> lat" "lat < L" "0 \<le> lon" "lon < N" "i \<in> set (cell_indices N lat lon)"
  shows "0 \<le> i \<and> i \<le> L * (N + 1) + N - 1 + 1"
proof -
  from assms have N: "0 \<le> N + 1" by simp
  have a: "0 \<le> lat * (N + 1)" using assms(1) N by (rule mult_nonneg_nonneg)
  from assms have "lat + 1 \<le> L" by simp
  then have "(lat + 1) * (N + 1) \<le> L * (N + 1)" using N by (rule mult_right_mono)
  then have b: "lat * (N + 1) + N + 1 \<le> L * (N + 1)" by (simp add: algebra_simps)
  from assms(5) have "i = lat * (N + 1) + lon \<or> i = lat * (N + 1) + lon + N + 1 \<or>
      i = lat * (N + 1) + lon + 1 \<or> i = lat * (N + 1) + lon + N + 1 + 1"
    unfolding set_cell_indices by blast
  with a b assms(3,4) show ?thesis by linarith
qed

lemma sphere_index_bounds:
  assumes "i \<in> set (sphere_indices L N)"
  shows "0 \<le> i \<and> i \<le> L * (N + 1) + N - 1 + 1"
proof -
  from assms obtain lat lon where "lat \<in> {0..<L}" "lon \<in> {0..<N}"
      "i \<in> set (cell_indices N lat lon)"
    unfolding set_sphere_indices by blast
  then show ?thesis using cell_index_bounds [of lat L lon N i] by simp
qed

lemma largest_index_emitted:
  assumes "1 \<le> L" "1 \<le> N"
  shows "L * (N + 1) + N - 1 + 1 \<in> set (sphere_indices L N)"
proof -
  have e: "L * (N + 1) + N - 1 + 1 = (L - 1) * (N + 1) + (N - 1) + N + 1 + 1"
    by (simp add: algebra_simps)
  have "(L - 1) * (N + 1) + (N - 1) + N + 1 + 1 \<in> set (cell_indices N (L - 1) (N - 1))"
    unfolding set_cell_indices by blast
  then have c: "L * (N + 1) + N - 1 + 1 \<in> set (cell_indices N (L - 1) (N - 1))"
    by (simp only: e)
  from assms have "L - 1 \<in> {0..<L}" "N - 1 \<in> {0..<N}" by simp_all
  with c show ?thesis unfolding set_sphere_indices by blast
qed

text \<open>
  Claim C2. For \<open>L \<ge> 1\<close> and \<open>N \<ge> 1\<close> every index that \<open>generate_sphere\<close> emits
  lies in \<open>[0, vertex_count)\<close>, where \<open>vertex_count = (L + 1) * (N + 1)\<close> is the
  number of vertices returned; the largest emitted index is
  \<open>L * (N + 1) + N - 1 + 1\<close>, which is below \<open>(L + 1) * (N + 1)\<close>.
\<close>

theorem generate_sphere_indices_in_range:
  assumes "1 \<le> L" and "1 \<le> N"
  shows "\<exists>vertices indices.
           generate_sphere radius L N = Inr (vertices, indices) \<and>
           (\<forall>i \<in> set indices. 0 \<le> i \<and> i < int (length vertices div 3) \<and> i < (L + 1) * (N + 1)) \<and>
           L * (N + 1) + N - 1 + 1 \<in> set indices \<and>
           (\<forall>i \<in> set indices. i \<le> L * (N + 1) + N - 1 + 1) \<and>
           L * (N + 1) + N - 1 + 1 < (L + 1) * (N + 1)"
proof -
  from assms have nz: "L \<noteq> 0" "N \<noteq> 0" by simp_all
  have lt: "L * (N + 1) + N - 1 + 1 < (L + 1) * (N + 1)"
    by (simp add: algebra_simps)
  from assms have "length (sphere_vertices radius L N) div 3 = nat (L + 1) * nat (N + 1)"
    by (simp add: length_sphere_vertices)
  with assms have vc: "int (length (sphere_vertices radius L N) div 3) = (L + 1) * (N + 1)"
    by (simp add: nat_mult_distrib)
  have b: "\<forall>i \<in> set (sphere_indices L N).
             0 \<le> i \<and> i < int (length (sphere_vertices radius L N) div 3) \<and>
             i < (L + 1) * (N + 1)"
  proof
    fix i assume "i \<in> set (sphere_indices L N)"
    then have "0 \<le> i \<and> i \<le> L * (N + 1) + N - 1 + 1" by (rule sphere_index_bounds)
    with lt show "0 \<le> i \<and> i < int (length (sphere_vertices radius L N) div 3) \<and>
             i < (L + 1) * (N + 1)"
      unfolding vc by linarith
  qed
  have m: "\<forall>i \<in> set (sphere_indices L N). i \<le> L * (N + 1) + N - 1 + 1"
    using sphere_index_bounds by blast
  have g: "generate_sphere radius L N = Inr (sphere_vertices radius L N, sphere_indices L N)"
    using nz by (rule generate_sphere_eq)
  show ?thesis
    apply (rule exI [of _ "sphere_vertices radius L N"])
    apply (rule exI [of _ "sphere_indices L N"])
    apply (intro conjI)
        apply (rule g)
       apply (rule b)
      apply (rule largest_index_emitted [OF assms])
     apply (rule m)
    apply (rule lt)
    done
qed

theorem generate_sphere_indices_in_range_witness:
  "\<exists>vertices indices.
     generate_sphere 1 16 32 = Inr (vertices, indices) \<and>
     (\<forall>i \<in> set indices. 0 \<le> i \<and> i < int (length vertices div 3) \<and> i < (16 + 1) * (32 + 1)) \<and>
     16 * (32 + 1) + 32 - 1 + 1 \<in> set indices \<and>
     (\<forall>i \<in> set indices. i \<le> 16 * (32 + 1) + 32 - 1 + 1) \<and>
     (16::int) * (32 + 1) + 32 - 1 + 1 < (16 + 1) * (32 + 1)"
proof -
  have "(1::int) \<le> 16" and "(1::int) \<le> 32" by simp_all
  then show ?thesis by (rule generate_sphere_indices_in_range)
qed

section \<open>Failures of the tessellator\<close>







section \<open>Order of the emitted indices\<close>

text \<open>
  Claim C3. For \<open>L \<ge> 1\<close> and \<open>N \<ge> 1\<close> the index list is produced by iterating
  \<open>lat\<close> over \<open>[0, L)\<close> (outer) and \<open>lon\<close> over \<open>[0, N)\<close> (inner); each cell, with
  \<open>first = lat * (N + 1) + lon\<close> and \<open>second = first + N + 1\<close>, contributes the
  triangle \<open>(first, second, first + 1)\<close> followed by the triangle
  \<open>(second, second + 1, first + 1)\<close>, in this order.
\<close>

theorem generate_sphere_index_order:
  assumes "1 \<le> L" and "1 \<le> N"
  shows "\<exists>vertices indices.
           generate_sphere radius L N = Inr (vertices, indices) \<and>
           indices =
             concat (map (\<lambda>lat. concat (map (\<lambda>lon.
                 let first = lat * (N + 1) + lon;
                     second = first + N + 1
                 in [first, second, first + 1] @ [second, second + 1, first + 1])
               [0..N - 1])) [0..L - 1])"
proof -
  from assms have nz: "L \<noteq> 0" "N \<noteq> 0" by simp_all
  have g: "generate_sphere radius L N = Inr (sphere_vertices radius L N, sphere_indices L N)"
    using nz by (rule generate_sphere_eq)
  have c: "cell_indices N = (\<lambda>lat lon.
                 let first = lat * (N + 1) + lon;
                     second = first + N + 1
                 in [first, second, first + 1] @ [second, second + 1, first + 1])"
    by (intro ext) (simp add: cell_indices_def Let_def)
  have "sphere_indices L N =
             concat (map (\<lambda>lat. concat (map (\<lambda>lon.
                 let first = lat * (N + 1) + lon;
                     second = first + N + 1
                 in [first, second, first + 1] @ [second, second + 1, first + 1])
               [0..N - 1])) [0..L - 1])"
    unfolding sphere_indices_def range_py_def c ..
  with g show ?thesis by simp
qed

theorem generate_sphere_index_order_witness:
  "\<exists>vertices. generate_sphere 1 2 2 =
      Inr (vertices, [0, 3, 1, 3, 4, 1, 1, 4, 2, 4, 5, 2, 3, 6, 4, 6, 7, 4, 4, 7, 5, 7, 8, 5])"
proof -
  have u: "[0..1] = [0, 1::int]" by (simp add: upto_rec1)
  show ?thesis
    using generate_sphere_index_order [of 2 2 1] by (simp add: u)
qed

section \<open>Division by zero\<close>




section \<open>Parameter validation\<close>





section \<open>Vertex positions\<close>

lemma take_drop_concat_block:
  assumes "\<And>x. x \<in> set xs \<Longrightarrow> length (f x) = k" and "i < length xs"
  shows "take k (drop (i * k) (concat (map f xs))) = f (xs ! i)"
  using assms
proof (induction xs arbitrary: i)
  case Nil
  then show ?case by simp
next
  case (Cons x xs)
  have lx: "length (f x) = k" using Cons.prems(1) by simp
  show ?case
  proof (cases i)
    case 0
    then show ?thesis using lx by simp
  next
    case (Suc j)
    have "take k (drop (j * k) (concat (map f xs))) = f (xs ! j)"
      using Cons.IH [of j] Cons.prems Suc by simp
    then show ?thesis using Suc lx by (simp add: add.commute)
  qed
qed

lemma take_drop_take:
  assumes "a + m \<le> w"
  shows "take m (drop a (take w xs)) = take m (drop a xs)"
proof -
  from assms have "min m (w - a) = m" by simp
  then show ?thesis by (simp add: drop_take)
qed

lemma range_py_nth:
  assumes "i < nat n"
  shows "range_py n ! i = int i"
  using assms unfolding range_py_def by (subst nth_upto) simp_all

lemma length_vertex_row:
  "length (vertex_row radius L N lat) = nat (N + 1) * 3"
  unfolding vertex_row_def
  by (subst length_concat_const [where k = 3]) (simp_all add: length_range_py)

lemma sphere_vertices_rows:
  "sphere_vertices radius L N = concat (map (vertex_row radius L N) (range_py (L + 1)))"
  unfolding sphere_vertices_def vertex_row_def ..

lemma vertex_block:
  assumes "0 \<le> lat" "lat \<le> L" "0 \<le> lon" "lon \<le> N"
  shows "take 3 (drop (nat (3 * (lat * (N + 1) + lon))) (sphere_vertices radius L N)) =
         vertex_at radius L N lat lon"
proof -
  let ?w = "nat (N + 1) * 3"
  have row: "take ?w (drop (nat lat * ?w) (sphere_vertices radius L N)) =
             vertex_row radius L N (range_py (L + 1) ! nat lat)"
    unfolding sphere_vertices_rows
    by (rule take_drop_concat_block) (use assms in \<open>simp_all add: length_vertex_row length_range_py\<close>)
  have "range_py (L + 1) ! nat lat = lat"
    using assms by (simp add: range_py_nth)
  with row have row': "take ?w (drop (nat lat * ?w) (sphere_vertices radius L N)) =
             vertex_row radius L N lat" by simp
  have cell: "take 3 (drop (nat lon * 3) (vertex_row radius L N lat)) =
              vertex_at radius L N lat (range_py (N + 1) ! nat lon)"
    unfolding vertex_row_def
    by (rule take_drop_concat_block) (use assms in \<open>simp_all add: length_range_py\<close>)
  have "range_py (N + 1) ! nat lon = lon"
    using assms by (simp add: range_py_nth)
  with cell have cell': "take 3 (drop (nat lon * 3) (vertex_row radius L N lat)) =
              vertex_at radius L N lat lon" by simp
  have fit: "nat lon * 3 + 3 \<le> ?w" using assms by simp
  have off: "nat (3 * (lat * (N + 1) + lon)) = nat lat * ?w + nat lon * 3"
  proof -
    have "int (nat lat * ?w + nat lon * 3) = 3 * (lat * (N + 1) + lon)"
      using assms by (simp add: algebra_simps)
    then show ?thesis by linarith
  qed
  have "take 3 (drop (nat lon * 3) (take ?w (drop (nat lat * ?w) (sphere_vertices radius L N)))) =
        take 3 (drop (nat lat * ?w + nat lon * 3) (sphere_vertices radius L N))"
    using fit by (simp add: take_drop_take add.commute)
  with cell' row' off show ?thesis by simp
qed

lemma vertex_nth:
  assumes "0 \<le> lat" "lat \<le> L" "0 \<le> lon" "lon \<le> N" "j < 3"
  shows "nat (3 * (lat * (N + 1) + lon)) + j < length (sphere_vertices radius L N) \<and>
         sphere_vertices radius L N ! (nat (3 * (lat * (N + 1) + lon)) + j) =
         vertex_at radius L N lat lon ! j"
proof -
  let ?k = "nat (3 * (lat * (N + 1) + lon))"
  let ?vs = "sphere_vertices radius L N"
  have b: "take 3 (drop ?k ?vs) = vertex_at radius L N lat lon"
    using assms(1-4) by (rule vertex_block)
  then have "length (take 3 (drop ?k ?vs)) = 3" by simp
  then have len: "?k + 3 \<le> length ?vs" by simp
  have "take 3 (drop ?k ?vs) ! j = ?vs ! (?k + j)"
    using assms(5) len by simp
  with b len assms(5) show ?thesis by simp
qed

text \<open>
  Claim C4. For every radius and segment counts \<open>L, N \<ge> 1\<close>, the vertex at grid
  position \<open>(lat, lon)\<close>, \<open>0 \<le> lat \<le> L\<close> and \<open>0 \<le> lon \<le> N\<close>, occupies the flat
  list offsets \<open>3 * (lat * (N + 1) + lon)\<close> and the two after it (latitude-major,
  longitude-minor order), and its coordinates are \<open>x = r * sin theta * cos phi\<close>,
  \<open>y = r * cos theta\<close> and \<open>z = r * sin theta * sin phi\<close> with
  \<open>theta = lat * pi / L\<close> and \<open>phi = lon * 2 * pi / N\<close>.
\<close>

theorem generate_sphere_vertex_position:
  assumes "1 \<le> L" and "1 \<le> N" and "0 \<le> lat" and "lat \<le> L" and "0 \<le> lon" and "lon \<le> N"
  shows "\<exists>vertices indices.
           generate_sphere radius L N = Inr (vertices, indices) \<and>
           (let theta = of_int lat * pi / of_int L;
                phi = of_int lon * 2 * pi / of_int N;
                offset = nat (3 * (lat * (N + 1) + lon))
            in offset + 2 < length vertices \<and>
               vertices ! offset = radius * sin theta * cos phi \<and>
               vertices ! (offset + 1) = radius * cos theta \<and>
               vertices ! (offset + 2) = radius * sin theta * sin phi)"
proof -
  from assms have nz: "L \<noteq> 0" "N \<noteq> 0" by simp_all
  have g: "generate_sphere radius L N = Inr (sphere_vertices radius L N, sphere_indices L N)"
    using nz by (rule generate_sphere_eq)
  note v = vertex_nth [OF assms(3-6), of _ radius]
  have v0: "sphere_vertices radius L N ! nat (3 * (lat * (N + 1) + lon)) =
            vertex_at radius L N lat lon ! 0"
    using v [of 0] by simp
  have v1: "sphere_vertices radius L N ! (nat (3 * (lat * (N + 1) + lon)) + 1) =
            vertex_at radius L N lat lon ! 1"
    using v [of 1] by simp
  have v2: "nat (3 * (lat * (N + 1) + lon)) + 2 < length (sphere_vertices radius L N) \<and>
            sphere_vertices radius L N ! (nat (3 * (lat * (N + 1) + lon)) + 2) =
            vertex_at radius L N lat lon ! 2"
    using v [of 2] by simp
  show ?thesis
    using g v0 v1 v2 by (simp add: vertex_at_def Let_def mult.commute mult.left_commute)
qed

theorem generate_sphere_vertex_position_witness:
  "\<exists>vertices indices.
     generate_sphere 1 16 32 = Inr (vertices, indices) \<and>
     794 < length vertices \<and>
     vertices ! 792 = 1 \<and> vertices ! 793 = 0 \<and> vertices ! 794 = 0"
proof -
  have a: "(1::int) \<le> 16" "(1::int) \<le> 32" "(0::int) \<le> 8" "(8::int) \<le> 16"
       "(0::int) \<le> 0" "(0::int) \<le> 32"
    by simp_all
  have h: "8 * pi / 16 = pi / 2" by simp
  show ?thesis
    using generate_sphere_vertex_position [OF a, of 1]
    by (simp add: Let_def h)
qed

section \<open>The document written by create_sphere_fbx.py\<close>

subsection \<open>Digits\<close>

lemma str_nat_small: "n < 10 \<Longrightarrow> str_nat n = [digit_char n]"
  by (simp add: str_nat.simps)

lemma str_nat_large: "10 \<le> n \<Longrightarrow> str_nat n = str_nat (n div 10) @ [digit_char (n mod 10)]"
  by (simp add: str_nat.simps)

lemma digit_cases:
  assumes "d < (10::nat)"
  shows "d = 0 \<or> d = 1 \<or> d = 2 \<or> d = 3 \<or> d = 4 \<or> d = 5 \<or> d = 6 \<or> d = 7 \<or> d = 8 \<or> d = 9"
  using assms by presburger

lemma digit_char_props:
  assumes "d < 10"
  shows "is_digit (digit_char d) \<and> digit_value (digit_char d) = d"
  using digit_cases [OF assms]
  by (elim disjE) (simp_all add: digit_char_def is_digit_def digit_value_def)

lemma str_nat_digits: "\<forall>c \<in> set (str_nat n). is_digit c"
proof (induction n rule: str_nat.induct)
  case (1 n)
  show ?case
  proof (cases "n < 10")
    case True
    then show ?thesis by (simp add: str_nat_small digit_char_props)
  next
    case False
    then have "\<forall>c \<in> set (str_nat (n div 10)). is_digit c" by (rule "1.IH")
    moreover have "is_digit (digit_char (n mod 10))" by (simp add: digit_char_props)
    ultimately show ?thesis using False by (simp add: str_nat_large)
  qed
qed

lemma nat_of_digits_snoc:
  "nat_of_digits (ds @ [c]) = 10 * nat_of_digits ds + digit_value c"
  by (simp add: nat_of_digits_def)

lemma nat_of_digits_str_nat: "nat_of_digits (str_nat n) = n"
proof (induction n rule: str_nat.induct)
  case (1 n)
  show ?case
  proof (cases "n < 10")
    case True
    then show ?thesis by (simp add: str_nat_small nat_of_digits_def digit_char_props)
  next
    case False
    then have "nat_of_digits (str_nat (n div 10)) = n div 10" by (rule "1.IH")
    then show ?thesis using False
      by (simp add: str_nat_large nat_of_digits_snoc digit_char_props)
  qed
qed


lemma str_int_nat: "str_int (int n) = str_nat n"
  by (simp add: str_int_def)

lemma takeWhile_digits_str_nat:
  assumes "\<not> is_digit c"
  shows "takeWhile is_digit (str_nat n @ c # rest) = str_nat n"
  using assms str_nat_digits [of n] by (simp add: takeWhile_append2)

lemma not_digit_space: "\<not> is_digit (CHR '' '')"
  by (simp add: is_digit_def)

lemma declared_count_vertices:
  "declared_count (''    Vertices: *'' @ str_int (int n) @ '' {'' @ newline) = n"
  by (simp add: declared_count_def str_int_nat takeWhile_digits_str_nat not_digit_space
      nat_of_digits_str_nat)

lemma declared_count_indices:
  "declared_count (''    PolygonVertexIndex: *'' @ str_int (int n) @ '' {'' @ newline) = n"
  by (simp add: declared_count_def str_int_nat takeWhile_digits_str_nat not_digit_space
      nat_of_digits_str_nat)

lemma declared_count_normals:
  "declared_count (''        Normals: *'' @ str_int (int n) @ '' {'' @ newline) = n"
  by (simp add: declared_count_def str_int_nat takeWhile_digits_str_nat not_digit_space
      nat_of_digits_str_nat)

subsection \<open>The loops write one line per triple\<close>

lemma range_step3_ok:
  assumes "length xs = 3 * n" and "i \<in> set (range_step3 (length xs))"
  shows "triple_at xs i = Inr (xs ! i, xs ! (i + 1), xs ! (i + 2))"
proof -
  from assms obtain k where "i = 3 * k" "k < n"
    by (auto simp: range_step3_def)
  with assms(1) show ?thesis by (simp add: triple_at_def)
qed

lemma length_range_step3: "length (range_step3 (3 * n)) = n"
  by (simp add: range_step3_def)

lemma vertex_lines_loop_eq:
  assumes "\<And>i. i \<in> set idxs \<Longrightarrow> triple_at vertices i = Inr (vertices ! i, vertices ! (i + 1), vertices ! (i + 2))"
  shows "vertex_lines_loop vertices idxs written =
         Inr (written @ map (\<lambda>i. vertex_line (vertices ! i) (vertices ! (i + 1)) (vertices ! (i + 2))) idxs)"
  using assms by (induction idxs arbitrary: written) simp_all

lemma index_lines_loop_eq:
  assumes "\<And>i. i \<in> set idxs \<Longrightarrow> triple_at indices i = Inr (indices ! i, indices ! (i + 1), indices ! (i + 2))"
  shows "index_lines_loop indices idxs written =
         Inr (written @ map (\<lambda>i. index_line (indices ! i) (indices ! (i + 1)) (indices ! (i + 2))) idxs)"
  using assms by (induction idxs arbitrary: written) simp_all

lemma normal_of_eq: "normal_of x y z = Inr (unit_normal x y z)"
  by (simp add: normal_of_def unit_normal_def float_div_def Let_def)

lemma normal_lines_loop_eq:
  assumes "\<And>i. i \<in> set idxs \<Longrightarrow> triple_at vertices i = Inr (vertices ! i, vertices ! (i + 1), vertices ! (i + 2))"
  shows "normal_lines_loop vertices idxs written =
         Inr (written @ map (\<lambda>i. case unit_normal (vertices ! i) (vertices ! (i + 1)) (vertices ! (i + 2)) of
                                 (x, y, z) \<Rightarrow> normal_line x y z) idxs)"
  using assms
  by (induction idxs arbitrary: written) (simp_all add: normal_of_eq split: prod.splits)

subsection \<open>The document that is written\<close>

lemma write_geometry_eq:
  assumes "length vertices = 3 * n" and "length indices = 3 * m"
  shows "write_geometry vertices indices =
         Inr (geometry_document n (3 * m) (vertex_lines vertices) (index_lines indices)
                (normal_lines vertices))"
proof -
  have v: "vertex_lines_loop vertices (range_step3 (length vertices)) written =
           Inr (written @ vertex_lines vertices)" for written
    unfolding vertex_lines_def
    by (rule vertex_lines_loop_eq) (rule range_step3_ok [OF assms(1)])
  have i: "index_lines_loop indices (range_step3 (length indices)) written =
           Inr (written @ index_lines indices)" for written
    unfolding index_lines_def
    by (rule index_lines_loop_eq) (rule range_step3_ok [OF assms(2)])
  have k: "normal_lines_loop vertices (range_step3 (length vertices)) written =
           Inr (written @ normal_lines vertices)" for written
    unfolding normal_lines_def
    by (rule normal_lines_loop_eq) (rule range_step3_ok [OF assms(1)])
  have c: "int (length vertices) div 3 = int n" "int (length indices) = int (3 * m)"
    using assms by simp_all
  show ?thesis
    unfolding write_geometry_def Let_def v i k c geometry_document_def
      vertices_open_def indices_open_def normals_open_def geometry_close_def
    by simp
qed

subsection \<open>The arrays of the document\<close>

lemma is_data_line_vertex_line: "is_data_line (vertex_line x y z)"
  by (simp add: is_data_line_def vertex_line_def strip_indent_def)

lemma is_data_line_index_line: "is_data_line (index_line a b c)"
  by (simp add: is_data_line_def index_line_def strip_indent_def)

lemma is_data_line_normal_line: "is_data_line (normal_line x y z)"
  by (simp add: is_data_line_def normal_line_def strip_indent_def)

lemma data_line_not_header:
  assumes "is_data_line line" and "name \<noteq> []" and "hd name \<noteq> CHR ''a''"
  shows "\<not> is_array_header name line"
proof
  assume h: "is_array_header name line"
  from assms(2) obtain c cs where name: "name = c # cs" by (cases name) auto
  show False
  proof (cases "strip_indent line")
    case Nil
    with assms(1) show False by (simp add: is_data_line_def)
  next
    case (Cons d ds)
    with assms(1) have "d = CHR ''a''" by (simp add: is_data_line_def numeral_3_eq_3)
    moreover from h Cons name have "d = c" by (simp add: is_array_header_def take_Cons')
    ultimately show False using assms(3) name by simp
  qed
qed

lemma set_vertex_lines: "line \<in> set (vertex_lines vertices) \<Longrightarrow> is_data_line line"
  by (auto simp: vertex_lines_def is_data_line_vertex_line)

lemma set_index_lines: "line \<in> set (index_lines indices) \<Longrightarrow> is_data_line line"
  by (auto simp: index_lines_def is_data_line_index_line)

lemma set_normal_lines: "line \<in> set (normal_lines vertices) \<Longrightarrow> is_data_line line"
  by (auto simp: normal_lines_def is_data_line_normal_line split: prod.splits)

lemma section_vertices:
  "section_from ''Vertices'' (vertices_open nv @ rest) =
   (''    Vertices: *'' @ str_int (int nv) @ '' {'' @ newline) # rest"
  by (simp add: section_from_def vertices_open_def is_array_header_def strip_indent_def
      dquote_def newline_def)

lemma skip_vertices_open:
  assumes "hd name \<noteq> CHR ''V''" and "name \<noteq> []"
  shows "section_from name (vertices_open nv @ rest) = section_from name rest"
proof -
  from assms obtain c cs where "name = c # cs" "c \<noteq> CHR ''V''" by (cases name) auto
  then show ?thesis
    by (simp add: section_from_def vertices_open_def is_array_header_def strip_indent_def
        dquote_def newline_def take_Cons')
qed

lemma skip_data_lines:
  assumes "\<And>line. line \<in> set ls \<Longrightarrow> is_data_line line"
    and "name \<noteq> []" and "hd name \<noteq> CHR ''a''"
  shows "section_from name (ls @ rest) = section_from name rest"
  unfolding section_from_def
  by (rule dropWhile_append2) (simp add: data_line_not_header assms)

lemma section_indices:
  "section_from ''PolygonVertexIndex'' (indices_open ni @ rest) =
   (''    PolygonVertexIndex: *'' @ str_int (int ni) @ '' {'' @ newline) # rest"
  by (simp add: section_from_def indices_open_def is_array_header_def strip_indent_def
      newline_def)

lemma skip_indices_open:
  "section_from ''Normals'' (indices_open ni @ rest) = section_from ''Normals'' rest"
  by (simp add: section_from_def indices_open_def is_array_header_def strip_indent_def
      newline_def)

lemma section_normals:
  "section_from ''Normals'' (normals_open nv @ rest) =
   (''        Normals: *'' @ str_int (int nv) @ '' {'' @ newline) # rest"
  by (simp add: section_from_def normals_open_def is_array_header_def strip_indent_def
      newline_def)

lemma data_lines_until_close:
  assumes "\<And>line. line \<in> set ls \<Longrightarrow> is_data_line line"
    and "\<not> is_data_line closing"
  shows "takeWhile is_data_line (ls @ closing # rest) = ls"
  using assms by simp

lemma not_data_line_close:
  "\<not> is_data_line (''    }'' @ newline)" "\<not> is_data_line (''        }'' @ newline)"
  by (simp_all add: is_data_line_def strip_indent_def newline_def)

lemma geometry_document_arrays:
  assumes "\<And>line. line \<in> set vlines \<Longrightarrow> is_data_line line"
    and "\<And>line. line \<in> set ilines \<Longrightarrow> is_data_line line"
    and "\<And>line. line \<in> set nlines \<Longrightarrow> is_data_line line"
  shows "array_declared_count ''Vertices'' (geometry_document nv ni vlines ilines nlines) = Some nv"
    and "array_data_lines ''Vertices'' (geometry_document nv ni vlines ilines nlines) = vlines"
    and "array_declared_count ''PolygonVertexIndex'' (geometry_document nv ni vlines ilines nlines) = Some ni"
    and "array_data_lines ''PolygonVertexIndex'' (geometry_document nv ni vlines ilines nlines) = ilines"
    and "array_declared_count ''Normals'' (geometry_document nv ni vlines ilines nlines) = Some nv"
    and "array_data_lines ''Normals'' (geometry_document nv ni vlines ilines nlines) = nlines"
proof -
  let ?doc = "geometry_document nv ni vlines ilines nlines"
  have v: "section_from ''Vertices'' ?doc =
           (''    Vertices: *'' @ str_int (int nv) @ '' {'' @ newline) #
           vlines @ (''    }'' @ newline) # tl (indices_open ni) @ ilines @ normals_open nv @ nlines @ geometry_close"
    unfolding geometry_document_def section_vertices by (simp add: indices_open_def)
  have i: "section_from ''PolygonVertexIndex'' ?doc =
           (''    PolygonVertexIndex: *'' @ str_int (int ni) @ '' {'' @ newline) #
           ilines @ (''    }'' @ newline) # tl (normals_open nv) @ nlines @ geometry_close"
    unfolding geometry_document_def
    by (simp add: skip_vertices_open skip_data_lines [OF assms(1)] section_indices)
       (simp add: normals_open_def)
  have n: "section_from ''Normals'' ?doc =
           (''        Normals: *'' @ str_int (int nv) @ '' {'' @ newline) #
           nlines @ (''        }'' @ newline) # tl geometry_close"
    unfolding geometry_document_def
    by (simp add: skip_vertices_open skip_data_lines [OF assms(1)] skip_indices_open
          skip_data_lines [OF assms(2)] section_normals)
       (simp add: geometry_close_def)
  show "array_declared_count ''Vertices'' ?doc = Some nv"
    unfolding array_declared_count_def v by (simp only: list.case declared_count_vertices)
  show "array_data_lines ''Vertices'' ?doc = vlines"
    unfolding array_data_lines_def v
    using data_lines_until_close [OF assms(1) not_data_line_close(1)] by simp
  show "array_declared_count ''PolygonVertexIndex'' ?doc = Some ni"
    unfolding array_declared_count_def i by (simp only: list.case declared_count_indices)
  show "array_data_lines ''PolygonVertexIndex'' ?doc = ilines"
    unfolding array_data_lines_def i
    using data_lines_until_close [OF assms(2) not_data_line_close(1)] by simp
  show "array_declared_count ''Normals'' ?doc = Some nv"
    unfolding array_declared_count_def n by (simp only: list.case declared_count_normals)
  show "array_data_lines ''Normals'' ?doc = nlines"
    unfolding array_data_lines_def n
    using data_lines_until_close [OF assms(3) not_data_line_close(2)] by simp
qed

lemma length_vertex_lines: "length vertices = 3 * n \<Longrightarrow> length (vertex_lines vertices) = n"
  by (simp add: vertex_lines_def length_range_step3)

lemma length_index_lines: "length indices = 3 * m \<Longrightarrow> length (index_lines indices) = m"
  by (simp add: index_lines_def length_range_step3)

lemma length_normal_lines: "length vertices = 3 * n \<Longrightarrow> length (normal_lines vertices) = n"
  by (simp add: normal_lines_def length_range_step3)

lemma create_sphere_fbx_eq:
  assumes "1 \<le> L" and "1 \<le> N"
  shows "create_sphere_fbx radius L N =
         Inr (geometry_document (nat ((L + 1) * (N + 1))) (3 * nat (L * N * 2))
                (vertex_lines (sphere_vertices radius L N))
                (index_lines (sphere_indices L N))
                (normal_lines (sphere_vertices radius L N)))"
proof -
  from assms have nz: "L \<noteq> 0" "N \<noteq> 0" by simp_all
  from assms have lv: "length (sphere_vertices radius L N) = 3 * nat ((L + 1) * (N + 1))"
    by (simp add: length_sphere_vertices nat_mult_distrib)
  from assms have li: "length (sphere_indices L N) = 3 * nat (L * N * 2)"
    by (simp add: length_sphere_indices nat_mult_distrib)
  show ?thesis
    unfolding create_sphere_fbx_def generate_sphere_eq [OF nz]
    by (simp add: write_geometry_eq [OF lv li])
qed

lemma create_sphere_fbx_arrays:
  assumes "1 \<le> L" and "1 \<le> N"
  shows "\<exists>doc. create_sphere_fbx radius L N = Inr doc \<and>
           array_declared_count ''Vertices'' doc = Some (nat ((L + 1) * (N + 1))) \<and>
           array_data_lines ''Vertices'' doc = vertex_lines (sphere_vertices radius L N) \<and>
           array_declared_count ''PolygonVertexIndex'' doc = Some (3 * nat (L * N * 2)) \<and>
           array_data_lines ''PolygonVertexIndex'' doc = index_lines (sphere_indices L N) \<and>
           array_declared_count ''Normals'' doc = Some (nat ((L + 1) * (N + 1))) \<and>
           array_data_lines ''Normals'' doc = normal_lines (sphere_vertices radius L N)"
  unfolding create_sphere_fbx_eq [OF assms]
  using geometry_document_arrays [of "vertex_lines (sphere_vertices radius L N)"
      "index_lines (sphere_indices L N)" "normal_lines (sphere_vertices radius L N)",
      OF set_vertex_lines set_index_lines set_normal_lines]
  by simp

lemma sphere_line_counts:
  assumes "1 \<le> L" and "1 \<le> N"
  shows "length (vertex_lines (sphere_vertices radius L N)) = nat ((L + 1) * (N + 1))"
    and "length (index_lines (sphere_indices L N)) = nat (L * N * 2)"
    and "length (normal_lines (sphere_vertices radius L N)) = nat ((L + 1) * (N + 1))"
proof -
  from assms have lv: "length (sphere_vertices radius L N) = 3 * nat ((L + 1) * (N + 1))"
    by (simp add: length_sphere_vertices nat_mult_distrib)
  from assms have li: "length (sphere_indices L N) = 3 * nat (L * N * 2)"
    by (simp add: length_sphere_indices nat_mult_distrib)
  show "length (vertex_lines (sphere_vertices radius L N)) = nat ((L + 1) * (N + 1))"
    using lv by (rule length_vertex_lines)
  show "length (index_lines (sphere_indices L N)) = nat (L * N * 2)"
    using li by (rule length_index_lines)
  show "length (normal_lines (sphere_vertices radius L N)) = nat ((L + 1) * (N + 1))"
    using lv by (rule length_normal_lines)
qed

section \<open>Count prefixes\<close>

text \<open>
  Claim C6 says that the declared count of each of the three arrays equals the number
  of its data lines. The script's own run writes \<^verbatim>\<open>PolygonVertexIndex: *3072 {\<close>
  followed by 1024 lines of three indices each.
\<close>

theorem index_count_prefix_counterexample:
  "\<not> isl (create_sphere_fbx 1 16 32) \<and>
   array_declared_count ''PolygonVertexIndex'' (projr (create_sphere_fbx 1 16 32)) = Some 3072 \<and>
   length (array_data_lines ''PolygonVertexIndex'' (projr (create_sphere_fbx 1 16 32))) = 1024"
proof -
  have a: "(1::int) \<le> 16" "(1::int) \<le> 32" by simp_all
  from create_sphere_fbx_arrays [OF a, of 1] obtain doc where
    d: "create_sphere_fbx 1 16 32 = Inr doc"
    and c: "array_declared_count ''PolygonVertexIndex'' doc = Some (3 * nat (16 * 32 * 2))"
    and l: "array_data_lines ''PolygonVertexIndex'' doc = index_lines (sphere_indices 16 32)"
    by blast
  have "length (index_lines (sphere_indices 16 32)) = nat (16 * 32 * 2)"
    using a by (rule sphere_line_counts)
  with d c l show ?thesis by simp
qed

text \<open>
  Claim C6, amended. For segment counts \<open>L, N \<ge> 1\<close> the declared count of the vertex
  array equals the number of its data lines, \<open>(L + 1) * (N + 1)\<close>, and so does that of
  the normals array; the declared count of the index array is the number of indices,
  three times the number \<open>2 * L * N\<close> of its data lines.
\<close>

theorem count_prefixes:
  assumes "1 \<le> L" and "1 \<le> N"
  shows "\<exists>doc. create_sphere_fbx radius L N = Inr doc \<and>
           array_declared_count ''Vertices'' doc = Some (length (array_data_lines ''Vertices'' doc)) \<and>
           array_declared_count ''Normals'' doc = Some (length (array_data_lines ''Normals'' doc)) \<and>
           array_declared_count ''PolygonVertexIndex'' doc =
             Some (3 * length (array_data_lines ''PolygonVertexIndex'' doc)) \<and>
           int (length (array_data_lines ''Vertices'' doc)) = (L + 1) * (N + 1) \<and>
           int (length (array_data_lines ''Normals'' doc)) = (L + 1) * (N + 1) \<and>
           int (length (array_data_lines ''PolygonVertexIndex'' doc)) = L * N * 2"
proof -
  from create_sphere_fbx_arrays [OF assms, of radius] obtain doc where
    d: "create_sphere_fbx radius L N = Inr doc"
    and v: "array_declared_count ''Vertices'' doc = Some (nat ((L + 1) * (N + 1)))"
      "array_data_lines ''Vertices'' doc = vertex_lines (sphere_vertices radius L N)"
    and i: "array_declared_count ''PolygonVertexIndex'' doc = Some (3 * nat (L * N * 2))"
      "array_data_lines ''PolygonVertexIndex'' doc = index_lines (sphere_indices L N)"
    and n: "array_declared_count ''Normals'' doc = Some (nat ((L + 1) * (N + 1)))"
      "array_data_lines ''Normals'' doc = normal_lines (sphere_vertices radius L N)"
    by blast
  note c = sphere_line_counts [OF assms]
  from assms have p: "int (nat ((L + 1) * (N + 1))) = (L + 1) * (N + 1)"
    "int (nat (L * N * 2)) = L * N * 2" by simp_all
  show ?thesis
    apply (rule exI [of _ doc])
    apply (simp only: d v i n c p)
    done
qed

theorem count_prefixes_witness:
  "\<exists>doc. create_sphere_fbx 1 16 32 = Inr doc \<and>
     array_declared_count ''Vertices'' doc = Some (length (array_data_lines ''Vertices'' doc)) \<and>
     array_declared_count ''Normals'' doc = Some (length (array_data_lines ''Normals'' doc)) \<and>
     array_declared_count ''PolygonVertexIndex'' doc =
       Some (3 * length (array_data_lines ''PolygonVertexIndex'' doc)) \<and>
     int (length (array_data_lines ''Vertices'' doc)) = 561 \<and>
     int (length (array_data_lines ''Normals'' doc)) = 561 \<and>
     int (length (array_data_lines ''PolygonVertexIndex'' doc)) = 1024"
  using count_prefixes [of 16 32 1] by simp

section \<open>Number formats of the data lines\<close>













text \<open>The formats on concrete values.\<close>

lemma format_examples:
  "format_6f 1 = ''1.000000''"
  "format_6f 0 = ''0.000000''"
  "format_6f (- 1 / 2) = ''-0.500000''"
  "format_6f (1 / 128) = ''0.007812''"
  "index_line 0 33 1 = ''        a: 0, 33, 1,'' @ newline"
  "is_fixed6 ''-0.500000''" "\<not> is_fixed6 ''0.5''" "is_plain_decimal ''33''"
  by (simp_all add: format_6f_def round_half_even_def str_nat_small str_nat_large digit_char_def
      index_line_def str_int_def is_fixed6_def is_plain_decimal_def unsigned_part_def is_digit_def)

section \<open>Normals\<close>

subsection \<open>Every vertex lies on the sphere\<close>





subsection \<open>The normal of a vertex\<close>






subsection \<open>The normals array printed by generate_sphere.py\<close>










subsection \<open>The serialized normals\<close>



end
